theory Spec2Isabelle
  imports Complex_Main "HOL-Library.Sublist"
begin

section \<open>Python values used by the trade analysis\<close>

text \<open>
  Python strings are modelled as \<^typ>\<open>string\<close>, one \<^typ>\<open>char\<close> per code point, which
  covers the code points below 256.
\<close>

definition isspace :: "char \<Rightarrow> bool" where
  \<comment> \<open>\<open>str.isspace\<close> on one code point below 256\<close>
  "isspace c = (of_char c \<in> {9, 10, 11, 12, 13, 28, 29, 30, 31, 32, 133, 160 :: nat})"

definition strip :: "string \<Rightarrow> string" where
  \<comment> \<open>\<open>s.strip()\<close>: leading and trailing whitespace removed\<close>
  "strip s = rev (dropWhile isspace (rev (dropWhile isspace s)))"

definition lower_char :: "char \<Rightarrow> char" where
  "lower_char c =
     (let n = (of_char c :: nat)
      in if (65 \<le> n \<and> n \<le> 90) \<or> (192 \<le> n \<and> n \<le> 222 \<and> n \<noteq> 215)
         then char_of (n + 32) else c)"

definition lower :: "string \<Rightarrow> string" where
  \<comment> \<open>\<open>s.lower()\<close>\<close>
  "lower s = map lower_char s"

fun join :: "string \<Rightarrow> string list \<Rightarrow> string" where
  \<comment> \<open>\<open>sep.join(xs)\<close>\<close>
  "join sep [] = []"
| "join sep [x] = x"
| "join sep (x # y # ys) = x @ sep @ join sep (y # ys)"

fun str_in :: "string \<Rightarrow> string \<Rightarrow> bool" where
  \<comment> \<open>\<open>sub in s\<close> on strings: \<open>sub\<close> occurs in \<open>s\<close> as a contiguous piece\<close>
  "str_in sub [] = (sub = [])"
| "str_in sub (c # cs) = (prefix sub (c # cs) \<or> str_in sub cs)"

definition digit_char :: "nat \<Rightarrow> char" where
  "digit_char d = char_of (48 + d)"

fun str_nat :: "nat \<Rightarrow> string" where
  \<comment> \<open>\<open>str(n)\<close> for a non-negative integer: its decimal digits\<close>
  "str_nat n = (if n < 10 then [digit_char n] else str_nat (n div 10) @ [digit_char (n mod 10)])"

declare str_nat.simps [simp del]

definition newline :: string where
  "newline = [CHR 0x0A]"

definition dquote :: string where
  "dquote = [CHR 0x22]"

function split_acc :: "string \<Rightarrow> string \<Rightarrow> string \<Rightarrow> string list" where
  \<comment> \<open>the scan of \<open>s.split(sep)\<close> from the left; \<open>cur\<close> is the piece being read, reversed\<close>
  "split_acc sep cur [] = [rev cur]"
| "split_acc sep cur (c # cs) =
     (if sep \<noteq> [] \<and> prefix sep (c # cs)
      then rev cur # split_acc sep [] (drop (length sep) (c # cs))
      else split_acc sep (c # cur) cs)"
  by pat_completeness auto
termination
  by (relation "measure (\<lambda>(sep, cur, s). length s)") auto

definition split :: "string \<Rightarrow> string \<Rightarrow> string list" where
  \<comment> \<open>\<open>s.split(sep)\<close> for a non-empty separator (Python raises \<open>ValueError\<close> on an empty
      one; the only separator of the program is a non-empty literal)\<close>
  "split sep s = split_acc sep [] s"

subsection \<open>Dictionaries in insertion order\<close>

text \<open>
  A Python \<open>dict\<close> keeps its keys in the order of their first insertion, and
  \<open>sorted(d.keys(), ...)\<close> reads them in that order, so the dictionary is an association
  list: assigning to a key that is present replaces the value in place, a new key goes to
  the end.
\<close>

fun dict_set :: "('k \<times> 'v) list \<Rightarrow> 'k \<Rightarrow> 'v \<Rightarrow> ('k \<times> 'v) list" where
  \<comment> \<open>\<open>d[k] = v\<close>\<close>
  "dict_set [] k v = [(k, v)]"
| "dict_set ((k', v') # d) k v = (if k' = k then (k', v) # d else (k', v') # dict_set d k v)"

definition dict_get :: "('k \<times> 'v) list \<Rightarrow> 'k \<Rightarrow> 'v \<Rightarrow> 'v" where
  \<comment> \<open>\<open>d.get(k, dflt)\<close>\<close>
  "dict_get d k dflt = (case map_of d k of None \<Rightarrow> dflt | Some v \<Rightarrow> v)"

definition dict_keys :: "('k \<times> 'v) list \<Rightarrow> 'k list" where
  \<comment> \<open>\<open>d.keys()\<close>, in iteration order\<close>
  "dict_keys d = map fst d"

definition sorted_py :: "('a \<Rightarrow> int) \<Rightarrow> bool \<Rightarrow> 'a list \<Rightarrow> 'a list" where
  \<comment> \<open>\<open>sorted(xs, key=key, reverse=reverse)\<close>: a stable sort; with \<open>reverse=True\<close> the
      order is descending and elements with equal keys still keep their original order\<close>
  "sorted_py key reverse xs = (if reverse then rev (sort_key key (rev xs)) else sort_key key xs)"

section \<open>Floating-point numbers\<close>

text \<open>
  A Python \<open>float\<close> is an IEEE 754 double. Its finite values are rational numbers, so a
  double is \<open>Finite x\<close> with the exact value \<open>x\<close> (\<open>Finite 0\<close> is \<open>0.0\<close>), the negative
  zero, an infinity or a NaN. Every operation computes the exact result and rounds it to
  the nearest double, ties to the even significand: 53 bits for a normal number, the
  multiples of \<open>2^-1074\<close> below \<open>2^-1022\<close>, and an infinity from \<open>2^1024\<close> on.
\<close>

datatype double = Finite rat | NegZero | PosInf | NegInf | NaN

function ndigits :: "int \<Rightarrow> int \<Rightarrow> int" where
  \<comment> \<open>the number of digits of \<open>n\<close> in base \<open>b\<close>\<close>
  "ndigits b n = (if 0 < n \<and> 1 < b then ndigits b (n div b) + 1 else 0)"
  by pat_completeness auto
termination
  by (relation "measure (\<lambda>(b, n). nat n)") (auto intro: int_div_less_self)

declare ndigits.simps [simp del]

definition ilog :: "int \<Rightarrow> rat \<Rightarrow> int" where
  \<comment> \<open>for \<open>x > 0\<close> the integer \<open>k\<close> with \<open>b^k \<le> x < b^(k+1)\<close>\<close>
  "ilog b x =
     (let (p, q) = quotient_of x;
          a = ndigits b p - ndigits b q
      in if of_int b powi a \<le> x then a else a - 1)"

definition round_half_even :: "rat \<Rightarrow> int" where
  "round_half_even x =
     (let f = \<lfloor>x\<rfloor>; r = x - of_int f
      in if r < 1 / 2 then f else if r > 1 / 2 then f + 1 else if even f then f else f + 1)"

definition round_double :: "rat \<Rightarrow> double" where
  \<comment> \<open>the double nearest to \<open>x\<close>; \<open>e\<close> is the exponent of the last bit of the
      significand, \<open>m\<close> the significand as an integer\<close>
  "round_double x =
     (if x = 0 then Finite 0
      else
        let e = max (ilog 2 \<bar>x\<bar> - 52) (- 1074);
            m = round_half_even (\<bar>x\<bar> / 2 powi e)
        in if e > 971 \<or> (e = 971 \<and> m = 2 ^ 53) then (if x > 0 then PosInf else NegInf)
           else if m = 0 then (if x > 0 then Finite 0 else NegZero)
           else Finite (if x > 0 then of_int m * 2 powi e else - (of_int m * 2 powi e)))"

fun dadd :: "double \<Rightarrow> double \<Rightarrow> double" where
  \<comment> \<open>\<open>a + b\<close> on floats\<close>
  "dadd NaN _ = NaN"
| "dadd _ NaN = NaN"
| "dadd PosInf NegInf = NaN"
| "dadd NegInf PosInf = NaN"
| "dadd PosInf _ = PosInf"
| "dadd _ PosInf = PosInf"
| "dadd NegInf _ = NegInf"
| "dadd _ NegInf = NegInf"
| "dadd NegZero b = b"
| "dadd a NegZero = a"
| "dadd (Finite x) (Finite y) = round_double (x + y)"

definition dquot :: "double \<Rightarrow> nat \<Rightarrow> double" where
  \<comment> \<open>\<open>v / n\<close> for a float \<open>v\<close> and a positive integer \<open>n\<close> that is a double itself
      (\<open>n\<close> is the length of a list)\<close>
  "dquot v n = (case v of Finite x \<Rightarrow> round_double (x / of_nat n) | _ \<Rightarrow> v)"

definition dmul :: "double \<Rightarrow> int \<Rightarrow> double" where
  \<comment> \<open>\<open>v * c\<close> for a float \<open>v\<close> and a positive integer \<open>c\<close> that is a double itself\<close>
  "dmul v c = (case v of Finite x \<Rightarrow> round_double (x * of_int c) | _ \<Rightarrow> v)"

definition dgt :: "double \<Rightarrow> rat \<Rightarrow> bool" where
  \<comment> \<open>\<open>v > c\<close> for a float \<open>v\<close> and a constant \<open>c\<close>; a comparison with a NaN is false\<close>
  "dgt v c =
     (case v of
        Finite x \<Rightarrow> x > c
      | NegZero \<Rightarrow> 0 > c
      | PosInf \<Rightarrow> True
      | NegInf \<Rightarrow> False
      | NaN \<Rightarrow> False)"

definition dle :: "double \<Rightarrow> rat \<Rightarrow> bool" where
  \<comment> \<open>\<open>v <= c\<close> for a float \<open>v\<close> and a constant \<open>c\<close>\<close>
  "dle v c =
     (case v of
        Finite x \<Rightarrow> x \<le> c
      | NegZero \<Rightarrow> 0 \<le> c
      | PosInf \<Rightarrow> False
      | NegInf \<Rightarrow> True
      | NaN \<Rightarrow> False)"

definition float_sum :: "double list \<Rightarrow> double" where
  \<comment> \<open>\<open>sum(xs)\<close>: the items are added to the integer 0 one by one from the left, each
      addition rounded (the built-in \<open>sum\<close> of CPython up to 3.11)\<close>
  "float_sum xs = foldl dadd (Finite 0) xs"

definition is_finite :: "double \<Rightarrow> bool" where
  "is_finite v = (case v of Finite x \<Rightarrow> True | NegZero \<Rightarrow> True | _ \<Rightarrow> False)"

subsection \<open>Number formatting\<close>

text \<open>
  \<open>f"{x:.2f}"\<close> prints the exact value of the double with two decimals, rounded half to
  even; \<open>f"{x:.1%}"\<close> multiplies by 100 as a float first. \<open>round(x, 1)\<close> rounds the exact
  value to one decimal and returns the nearest double, and \<open>str\<close> of a float is the
  shortest decimal that reads back as the same double, in scientific notation when the
  decimal point would stand more than 16 digits to the right or more than 3 zeros to the
  left.
\<close>

function str_int :: "int \<Rightarrow> string" where
  \<comment> \<open>the decimal digits of a non-negative integer\<close>
  "str_int n =
     (if n < 10 then [digit_char (nat n)] else str_int (n div 10) @ [digit_char (nat (n mod 10))])"
  by pat_completeness auto
termination
  by (relation "measure nat") auto

declare str_int.simps [simp del]

definition zero_pad :: "nat \<Rightarrow> string \<Rightarrow> string" where
  "zero_pad w s = replicate (w - length s) (CHR ''0'') @ s"

definition fixed_digits :: "nat \<Rightarrow> rat \<Rightarrow> string" where
  \<comment> \<open>a non-negative value with \<open>d\<close> decimals\<close>
  "fixed_digits d x =
     (let n = round_half_even (x * 10 ^ d)
      in str_int (n div 10 ^ d)
         @ (if d = 0 then [] else ''.'' @ zero_pad d (str_int (n mod 10 ^ d))))"

definition format_fixed :: "nat \<Rightarrow> double \<Rightarrow> string" where
  \<comment> \<open>\<open>format(v, '.<d>f')\<close>\<close>
  "format_fixed d v =
     (case v of
        Finite x \<Rightarrow> (if x < 0 then ''-'' else []) @ fixed_digits d \<bar>x\<bar>
      | NegZero \<Rightarrow> ''-'' @ fixed_digits d 0
      | PosInf \<Rightarrow> ''inf''
      | NegInf \<Rightarrow> ''-inf''
      | NaN \<Rightarrow> ''nan'')"

definition format_percent :: "nat \<Rightarrow> double \<Rightarrow> string" where
  \<comment> \<open>\<open>format(v, '.<d>%')\<close>\<close>
  "format_percent d v = format_fixed d (dmul v 100) @ ''%''"

definition round1 :: "double \<Rightarrow> double" where
  \<comment> \<open>\<open>round(v, 1)\<close>\<close>
  "round1 v =
     (case v of
        Finite x \<Rightarrow>
          (let r = of_int (round_half_even (\<bar>x\<bar> * 10)) / 10
           in if r = 0 then (if x < 0 then NegZero else Finite 0)
              else round_double (if x < 0 then - r else r))
      | _ \<Rightarrow> v)"

definition shortest_decimal :: "rat \<Rightarrow> rat" where
  \<comment> \<open>for a positive double \<open>x\<close>: the decimal with the fewest significant digits that
      rounds to \<open>x\<close>, the one nearest to \<open>x\<close> if there are two; 17 digits always suffice\<close>
  "shortest_decimal x =
     (let j = ilog 10 x;
          cands = concat (map (\<lambda>n.
                    let s = 10 powi (j - int n + 1);
                        f = \<lfloor>x / s\<rfloor>;
                        lo = of_int f * s;
                        hi = lo + s
                    in if x - lo < hi - x \<or> (x - lo = hi - x \<and> even f) then [lo, hi] else [hi, lo])
                  [1 ..< 18])
      in case find (\<lambda>c. round_double c = Finite x) cands of
           Some c \<Rightarrow> c
         | None \<Rightarrow> x)"

function decimal_digits :: "nat \<Rightarrow> rat \<Rightarrow> string" where
  \<comment> \<open>the first digits of \<open>m\<close>, \<open>1 \<le> m < 10\<close>, up to the last one that is not zero\<close>
  "decimal_digits fuel m =
     (if fuel = 0 \<or> m = 0 then []
      else str_int \<lfloor>m\<rfloor> @ decimal_digits (fuel - 1) ((m - of_int \<lfloor>m\<rfloor>) * 10))"
  by pat_completeness auto
termination
  by (relation "measure (\<lambda>(fuel, m). fuel)") auto

declare decimal_digits.simps [simp del]

definition repr_positive :: "rat \<Rightarrow> string" where
  "repr_positive x =
     (let c = shortest_decimal x;
          j = ilog 10 c;
          decpt = j + 1;
          digits = decimal_digits 17 (c / 10 powi j);
          n = int (length digits)
      in if decpt \<le> - 4 \<or> decpt > 16 then
           take 1 digits @ (if n > 1 then ''.'' @ drop 1 digits else [])
           @ ''e'' @ (if j < 0 then ''-'' else ''+'')
           @ zero_pad 2 (str_int \<bar>j\<bar>)
         else if decpt \<le> 0 then ''0.'' @ replicate (nat (- decpt)) (CHR ''0'') @ digits
         else if decpt < n then take (nat decpt) digits @ ''.'' @ drop (nat decpt) digits
         else digits @ replicate (nat (decpt - n)) (CHR ''0'') @ ''.0'')"

definition str_float :: "double \<Rightarrow> string" where
  \<comment> \<open>\<open>str(v)\<close> of a float\<close>
  "str_float v =
     (case v of
        Finite x \<Rightarrow>
          (if x = 0 then ''0.0''
           else if x < 0 then ''-'' @ repr_positive (- x) else repr_positive x)
      | NegZero \<Rightarrow> ''-0.0''
      | PosInf \<Rightarrow> ''inf''
      | NegInf \<Rightarrow> ''-inf''
      | NaN \<Rightarrow> ''nan'')"

section \<open>Data model\<close>

text \<open>
  A trade record is the dictionary of one row of the \<open>trades\<close> table. The analysis reads
  the keys \<open>trade_type\<close>, \<open>pnl\<close> and \<open>notes\<close> only (\<open>id\<close>, \<open>user_id\<close> and \<open>entry_date\<close> are
  never read), each through \<open>trade.get\<close>; a field is \<open>None\<close> when the key is absent and
  otherwise carries a value of the column's type: a string for \<open>trade_type\<close> and
  \<open>notes\<close>, a float for \<open>pnl\<close>. A JSON null under \<open>pnl\<close> makes the comparison
  \<open>pnl > 0\<close> raise, and a null under \<open>trade_type\<close> is no string: rows with either are
  not values of this type. A \<open>pnl\<close> that is a JSON integer reaches Python
  as an \<open>int\<close>; it is read here as the float of the same value, which gives the same
  results as long as the integers and their running sums stay below \<open>2^53\<close> in magnitude.
\<close>

record trade =
  trade_type :: "string option"
  pnl :: "double option"
  "notes" :: "string option"

record analysis_result =
  win_rate :: double
  avg_profit_loss :: double
  strategies :: "string list"
  strengths :: "string list"
  weaknesses :: "string list"
  suggestions :: "string list"

definition get_pnl :: "trade \<Rightarrow> double" where
  \<comment> \<open>\<open>trade.get('pnl', 0)\<close>\<close>
  "get_pnl t = (case pnl t of None \<Rightarrow> Finite 0 | Some v \<Rightarrow> v)"

definition get_trade_type :: "trade \<Rightarrow> string" where
  \<comment> \<open>\<open>trade.get('trade_type', '')\<close>\<close>
  "get_trade_type t = (case trade_type t of None \<Rightarrow> [] | Some s \<Rightarrow> s)"

definition get_notes :: "trade \<Rightarrow> string" where
  \<comment> \<open>\<open>trade.get('notes', '')\<close>\<close>
  "get_notes t = (case notes t of None \<Rightarrow> [] | Some s \<Rightarrow> s)"

definition has_notes :: "trade \<Rightarrow> bool" where
  \<comment> \<open>truth value of \<open>trade.get('notes')\<close>: the key is present and the text is not empty\<close>
  "has_notes t = (case notes t of None \<Rightarrow> False | Some s \<Rightarrow> s \<noteq> [])"

section \<open>analyze_trades\<close>

fun count_strategies :: "trade list \<Rightarrow> (string \<times> int) list \<Rightarrow> (string \<times> int) list" where
  \<comment> \<open>the loop filling \<open>strategies_count\<close>; the second argument is the dictionary so far\<close>
  "count_strategies [] strategies_count = strategies_count"
| "count_strategies (t # ts) strategies_count =
     (let strategy = strip (get_trade_type t)
      in if strategy \<noteq> []
         then count_strategies ts
                (dict_set strategies_count strategy (dict_get strategies_count strategy 0 + 1))
         else count_strategies ts strategies_count)"

definition ranked_strategies :: "trade list \<Rightarrow> string list" where
  \<comment> \<open>\<open>sorted(strategies_count.keys(), key=lambda s: strategies_count[s], reverse=True)\<close>;
      every key that is looked up is a key of the dictionary\<close>
  "ranked_strategies trades =
     (let strategies_count = count_strategies trades []
      in sorted_py (\<lambda>s. dict_get strategies_count s 0) True (dict_keys strategies_count))"

text \<open>
  The three lists \<open>strengths\<close>, \<open>weaknesses\<close> and \<open>suggestions\<close> start empty and are
  appended to by four statements, in this order, the same text in both files
  (\<open>app.py\<close> lines 105-133, \<open>functions/trade-analysis.py\<close> lines 62-90). Each statement
  is a function on the triple of the lists.
\<close>

definition win_rate_rule :: "double \<Rightarrow> string list \<times> string list \<times> string list
    \<Rightarrow> string list \<times> string list \<times> string list" where
  "win_rate_rule wr = (\<lambda>(strengths, weaknesses, suggestions).
     if dgt wr (1 / 2) then (strengths @ [''Above 50% win rate''], weaknesses, suggestions)
     else (strengths, weaknesses @ [''Below 50% win rate''],
           suggestions @ [''Focus on improving your win rate by reviewing losing trades'']))"

definition avg_pnl_rule :: "double \<Rightarrow> string list \<times> string list \<times> string list
    \<Rightarrow> string list \<times> string list \<times> string list" where
  "avg_pnl_rule avg_pnl = (\<lambda>(strengths, weaknesses, suggestions).
     if dgt avg_pnl 0 then (strengths @ [''Positive average P&L''], weaknesses, suggestions)
     else (strengths, weaknesses @ [''Negative average P&L''],
           suggestions @ [''Work on improving your average profit per trade'']))"

definition diversity_rule :: "string list \<Rightarrow> string list \<times> string list \<times> string list
    \<Rightarrow> string list \<times> string list \<times> string list" where
  "diversity_rule strats = (\<lambda>(strengths, weaknesses, suggestions).
     if length strats > 2
     then (strengths @ [''Diverse trading approaches ('' @ str_nat (length strats)
                        @ '' different strategies)''], weaknesses, suggestions)
     else (strengths, weaknesses,
           suggestions @ [''Consider exploring more trading strategies to diversify your approach'']))"

definition notes_rule :: "trade list \<Rightarrow> string list \<times> string list \<times> string list
    \<Rightarrow> string list \<times> string list \<times> string list" where
  \<comment> \<open>the patterns looked for in the notes of the sampled trades\<close>
  "notes_rule sampled_trades = (\<lambda>(strengths, weaknesses, suggestions).
     let all_notes = join '' '' [get_notes trade. trade \<leftarrow> sampled_trades, has_notes trade]
     in if all_notes \<noteq> [] then
          let (weaknesses, suggestions) =
                (if str_in ''emotion'' (lower all_notes) \<or> str_in ''fear'' (lower all_notes)
                    \<or> str_in ''greed'' (lower all_notes)
                 then (weaknesses @ [''Emotional trading noted in multiple trades''],
                       suggestions @ [''Work on emotional discipline during trading''])
                 else (weaknesses, suggestions));
              strengths =
                (if str_in ''plan'' (lower all_notes)
                 then strengths @ [''Evidence of trade planning in notes''] else strengths)
          in (strengths, weaknesses, suggestions)
        else (strengths, weaknesses, suggestions))"

definition empty_analysis :: analysis_result where
  \<comment> \<open>the result both implementations return when \<open>not trades\<close>\<close>
  "empty_analysis =
     \<lparr>win_rate = Finite 0, avg_profit_loss = Finite 0, strategies = [], strengths = [],
      weaknesses = [],
      suggestions = [''Start recording your trades to get personalized analysis.'']\<rparr>"

subsection \<open>functions/trade-analysis.py\<close>

definition fn_analyze_trades :: "trade list \<Rightarrow> analysis_result" where
  "fn_analyze_trades trades =
     (if trades = [] then empty_analysis
      else
        let profitable_trades = sum_list [1 :: int. trade \<leftarrow> trades, dgt (get_pnl trade) 0];
            wr = (if trades \<noteq> []
                  then round_double (of_int profitable_trades / of_nat (length trades))
                  else Finite 0);
            total_pnl = float_sum [get_pnl trade. trade \<leftarrow> trades];
            avg_pnl = (if trades \<noteq> [] then dquot total_pnl (length trades) else Finite 0);
            strats = take 5 (ranked_strategies trades);
            lists = diversity_rule strats (avg_pnl_rule avg_pnl (win_rate_rule wr ([], [], [])));
            sample_size = min 50 (length trades);
            sampled_trades = take sample_size trades;
            (strengths, weaknesses, suggestions) = notes_rule sampled_trades lists
        in \<lparr>win_rate = wr, avg_profit_loss = avg_pnl,
            strategies = take 5 strats, strengths = take 3 strengths,
            weaknesses = take 3 weaknesses, suggestions = take 3 suggestions\<rparr>)"

subsection \<open>app.py\<close>

text \<open>
  \<open>np.random.choice(n, size, replace=False)\<close> is the one source of randomness. Its outcome
  is the parameter \<open>choice\<close>: the list of indices this call draws. numpy draws \<open>size\<close>
  distinct indices below \<open>n\<close>, so for every outcome it can produce each \<open>trades[i]\<close> is
  within range.
\<close>

definition app_sampled_trades :: "(nat \<Rightarrow> nat \<Rightarrow> nat list) \<Rightarrow> trade list \<Rightarrow> trade list" where
  "app_sampled_trades choice trades =
     (let sample_size = min 50 (length trades)
      in if length trades \<le> sample_size then take sample_size trades
         else [trades ! i. i \<leftarrow> choice (length trades) sample_size])"

definition app_analyze_trades :: "(nat \<Rightarrow> nat \<Rightarrow> nat list) \<Rightarrow> trade list \<Rightarrow> analysis_result" where
  "app_analyze_trades choice trades =
     (if trades = [] then empty_analysis
      else
        let profitable_trades = sum_list [1 :: int. trade \<leftarrow> trades, dgt (get_pnl trade) 0];
            wr = (if trades \<noteq> []
                  then round_double (of_int profitable_trades / of_nat (length trades))
                  else Finite 0);
            total_pnl = float_sum [get_pnl trade. trade \<leftarrow> trades];
            avg_pnl = (if trades \<noteq> [] then dquot total_pnl (length trades) else Finite 0);
            strats = take 5 (ranked_strategies trades);
            lists = diversity_rule strats (avg_pnl_rule avg_pnl (win_rate_rule wr ([], [], [])));
            sampled_trades = app_sampled_trades choice trades;
            (strengths, weaknesses, suggestions) = notes_rule sampled_trades lists
        in \<lparr>win_rate = wr, avg_profit_loss = avg_pnl,
            strategies = take 5 strats, strengths = take 3 strengths,
            weaknesses = take 3 weaknesses, suggestions = take 3 suggestions\<rparr>)"

text \<open>
  The size limit applied once more to the result at the HTTP boundary of \<open>app.py\<close>
  (lines 194-202 of \<open>get_trade_analysis\<close>, and lines 237-248 of \<open>chat\<close> on the
  dictionary form of the result).
\<close>

definition limit_returned :: "analysis_result \<Rightarrow> analysis_result" where
  "limit_returned analysis =
     (let analysis = (if length (strategies analysis) > 5
                      then analysis\<lparr>strategies := take 5 (strategies analysis)\<rparr> else analysis);
          analysis = (if length (strengths analysis) > 3
                      then analysis\<lparr>strengths := take 3 (strengths analysis)\<rparr> else analysis);
          analysis = (if length (weaknesses analysis) > 3
                      then analysis\<lparr>weaknesses := take 3 (weaknesses analysis)\<rparr> else analysis);
          analysis = (if length (suggestions analysis) > 3
                      then analysis\<lparr>suggestions := take 3 (suggestions analysis)\<rparr> else analysis)
      in analysis)"

section \<open>generate_coach_response\<close>

subsection \<open>The generation backend\<close>

text \<open>
  The text generator is an external collaborator. A call \<open>generator(prompt, max_length=150,
  num_return_sequences=1)\<close> either raises or returns a list of dictionaries; the program
  reads \<open>sequences[0]['generated_text']\<close> and calls \<open>.split\<close> on it. A returned dictionary
  is modelled by the value under \<open>'generated_text'\<close> (\<open>None\<close> when the key is missing),
  and that value is a string or some other object. The exceptions are those these steps
  can raise, all of them subclasses of \<open>Exception\<close>. \<open>generator is None\<close> is the generator
  \<open>None\<close>.
\<close>

datatype py_exception = IndexError | KeyError | AttributeError | RuntimeError string

datatype pyobj = Str string | NotStr

type_synonym sequence = "pyobj option"

datatype backend_outcome = Raises py_exception | Returns "sequence list"

type_synonym generator = "string \<Rightarrow> nat \<Rightarrow> nat \<Rightarrow> backend_outcome"

definition try_except ::
    "py_exception + 'a \<Rightarrow> (py_exception \<Rightarrow> py_exception + 'a) \<Rightarrow> py_exception + 'a" where
  \<comment> \<open>\<open>try: body except Exception as e: handler\<close>\<close>
  "try_except body handler = (case body of Inl e \<Rightarrow> handler e | Inr v \<Rightarrow> Inr v)"

definition generated_text_of :: "backend_outcome \<Rightarrow> py_exception + pyobj" where
  \<comment> \<open>\<open>sequences[0]['generated_text']\<close> on the outcome of the call\<close>
  "generated_text_of outcome =
     (case outcome of
        Raises e \<Rightarrow> Inl e
      | Returns [] \<Rightarrow> Inl IndexError
      | Returns (None # _) \<Rightarrow> Inl KeyError
      | Returns (Some v # _) \<Rightarrow> Inr v)"

definition advice_marker :: string where
  "advice_marker = ''Your helpful advice:''"

definition advice_part_of :: "pyobj \<Rightarrow> py_exception + string" where
  \<comment> \<open>\<open>generated_text.split("Your helpful advice:")[-1].strip()\<close>\<close>
  "advice_part_of generated_text =
     (case generated_text of
        NotStr \<Rightarrow> Inl AttributeError
      | Str text \<Rightarrow> Inr (strip (last (split advice_marker text))))"

definition or_else :: "string list \<Rightarrow> string \<Rightarrow> string" where
  \<comment> \<open>\<open>', '.join(xs) if xs else dflt\<close>\<close>
  "or_else xs dflt = (if xs \<noteq> [] then join '', '' xs else dflt)"

subsection \<open>app.py\<close>

definition trouble_message :: string where
  "trouble_message = ''I'm having trouble analyzing your trades right now. Please try again later.''"

definition short_fallback :: string where
  "short_fallback = ''Based on your trading performance, I recommend focusing on consistency and keeping detailed trade notes to identify patterns.''"

definition app_prompt :: "string \<Rightarrow> analysis_result \<Rightarrow> string" where
  "app_prompt user_message trade_analysis =
     newline @ ''You are a professional trading coach giving advice to a trader.'' @ newline
     @ ''The trader's performance:'' @ newline
     @ ''- Win rate: '' @ format_percent 1 (win_rate trade_analysis) @ newline
     @ ''- Average P&L: $'' @ format_fixed 2 (avg_profit_loss trade_analysis) @ newline
     @ ''- Strategies used: '' @ or_else (strategies trade_analysis) ''None recorded'' @ newline
     @ ''- Strengths: '' @ or_else (strengths trade_analysis) ''None identified'' @ newline
     @ ''- Weaknesses: '' @ or_else (weaknesses trade_analysis) ''None identified'' @ newline
     @ newline
     @ ''The trader asks: '' @ dquote @ user_message @ dquote @ newline
     @ newline
     @ ''Your helpful advice:'' @ newline"

text \<open>
  The prompt is built before the \<open>try\<close>; everything after it is inside. A result \<open>Inl e\<close>
  of the function would be an exception that reaches the caller.
\<close>

definition app_generate_coach_response ::
    "generator option \<Rightarrow> string \<Rightarrow> analysis_result \<Rightarrow> py_exception + string" where
  "app_generate_coach_response generator user_message trade_analysis =
     (let prompt = app_prompt user_message trade_analysis
      in try_except
           (case generator of
              None \<Rightarrow> Inr trouble_message
            | Some g \<Rightarrow>
                (case generated_text_of (g prompt 150 1) of
                   Inl e \<Rightarrow> Inl e
                 | Inr generated_text \<Rightarrow>
                     (case advice_part_of generated_text of
                        Inl e \<Rightarrow> Inl e
                      | Inr advice_part \<Rightarrow>
                          if advice_part = [] \<or> length advice_part < 10
                          then Inr short_fallback
                          else Inr advice_part)))
           (\<lambda>e. Inr trouble_message))"

subsection \<open>functions/trade-analysis.py\<close>

definition fn_prompt :: "string \<Rightarrow> analysis_result \<Rightarrow> string" where
  "fn_prompt user_message trade_analysis =
     (let win_rate_percent = str_float (round1 (dmul (win_rate trade_analysis) 100));
          avg_pnl = avg_profit_loss trade_analysis;
          strats = or_else (strategies trade_analysis) ''None recorded'';
          strens = or_else (strengths trade_analysis) ''None identified'';
          weaks = or_else (weaknesses trade_analysis) ''None identified''
      in newline @ ''As a professional trading coach, give advice to a trader with:'' @ newline
         @ ''- Win rate: '' @ win_rate_percent @ ''%'' @ newline
         @ ''- Average P&L: $'' @ format_fixed 2 avg_pnl @ newline
         @ ''- Strategies: '' @ strats @ newline
         @ ''- Strengths: '' @ strens @ newline
         @ ''- Weaknesses: '' @ weaks @ newline
         @ newline
         @ ''The trader asks: '' @ dquote @ user_message @ dquote @ newline
         @ newline
         @ ''Your helpful advice:'')"

text \<open>
  The template path (lines 141-169): the dictionary \<open>responses\<close> in the order it is
  written, the default response, and the loop that returns the response of the first key
  found in the lower-cased message.
\<close>

definition fn_template_response :: "string \<Rightarrow> analysis_result \<Rightarrow> string" where
  "fn_template_response user_message trade_analysis =
     (let win_rate_percent = str_float (round1 (dmul (win_rate trade_analysis) 100));
          avg_pnl = avg_profit_loss trade_analysis;
          responses =
            [(''how am i doing'',
              ''Based on your trading metrics, you have a '' @ win_rate_percent
              @ ''% win rate with an average P&L of $'' @ format_fixed 2 avg_pnl @ ''. ''
              @ (if dgt avg_pnl 0
                 then ''Your consistent positive results show good trading discipline. ''
                 else ''Focus on improving your risk management to achieve positive results. '')),
             (''what should i improve'',
              ''Based on your trading data, I recommend: ''
              @ or_else (suggestions trade_analysis)
                  ''Keeping detailed notes on each trade to identify patterns.''),
             (''what are my strengths'',
              ''Your trading strengths include: ''
              @ or_else (strengths trade_analysis)
                  ''Not enough data to determine specific strengths yet.''),
             (''what are my weaknesses'',
              ''Areas for improvement include: ''
              @ or_else (weaknesses trade_analysis)
                  ''Not enough data to determine specific weaknesses yet.'')];
          default_response =
            ''Based on your trading history with a '' @ win_rate_percent @ ''% win rate and $''
            @ format_fixed 2 avg_pnl @ '' average P&L, ''
            @ ''I recommend focusing on consistency and keeping detailed trade notes.''
      in case find (\<lambda>(key, response). str_in key (lower user_message)) responses of
           Some (key, response) \<Rightarrow> response
         | None \<Rightarrow> default_response)"

text \<open>
  The \<open>try\<close> block either returns from the function (\<open>Some response\<close>) or is left, by its
  end or through the handler, for the template path (\<open>None\<close>). \<open>HAS_TRANSFORMERS\<close> and
  \<open>generator\<close> are the module's two globals.
\<close>

definition fn_generate_coach_response ::
    "bool \<Rightarrow> generator option \<Rightarrow> string \<Rightarrow> analysis_result \<Rightarrow> py_exception + string" where
  "fn_generate_coach_response has_transformers generator user_message trade_analysis =
     (let returned =
            (case (has_transformers, generator) of
               (True, Some g) \<Rightarrow>
                 try_except
                   (let prompt = fn_prompt user_message trade_analysis
                    in case generated_text_of (g prompt 150 1) of
                         Inl e \<Rightarrow> Inl e
                       | Inr generated_text \<Rightarrow>
                           (case advice_part_of generated_text of
                              Inl e \<Rightarrow> Inl e
                            | Inr advice_part \<Rightarrow>
                                if advice_part \<noteq> [] \<and> length advice_part \<ge> 10
                                then Inr (Some (take 500 advice_part))
                                else Inr None))
                   (\<lambda>e. Inr None)
             | _ \<Rightarrow> Inr None)
      in case returned of
           Inl e \<Rightarrow> Inl e
         | Inr (Some response) \<Rightarrow> Inr response
         | Inr None \<Rightarrow> Inr (fn_template_response user_message trade_analysis))"

section \<open>The chat and analysis endpoints\<close>

text \<open>
  A response is its status code and its JSON body. The trade store is an external
  collaborator: \<open>client_error\<close> is what \<open>supabase.create_client\<close> raises with the given
  credentials, if anything, and a \<open>trade_query\<close> gives the outcome of the query for a
  user id, the rows (at most 100, newest first) or the message of the exception.
\<close>

datatype response_body =
    Detail string
  | PlainText string
  | ErrorJson string
  | ExceptionJson py_exception
  | ExceptionDetail string py_exception
  | ChatJson string "analysis_result option"
  | AnalysisJson analysis_result

record http_response =
  status :: nat
  body :: response_body

record environment =
  supabase_url :: "string option"
  supabase_key :: "string option"
  client_error :: "string option"

datatype query_outcome = QueryFails string | QueryData "trade list"

type_synonym trade_query = "string \<Rightarrow> query_outcome"

definition falsy :: "string option \<Rightarrow> bool" where
  \<comment> \<open>\<open>not v\<close> for a value that is \<open>None\<close> or a string\<close>
  "falsy v = (case v of None \<Rightarrow> True | Some s \<Rightarrow> s = [])"

subsection \<open>app.py\<close>

text \<open>
  The request body has passed the validation of \<open>ChatRequest\<close>: both fields are present,
  every message has a \<open>role\<close> and a \<open>content\<close>, all of them strings. The dependency
  \<open>get_supabase_client\<close> runs before the endpoint; an \<open>HTTPException\<close> is the response
  with its status code and detail, any other exception of the dependency the framework's
  plain 500 response. The returned dictionary is encoded by the framework after the
  endpoint has returned, outside its \<open>try\<close>; a float that JSON cannot carry makes the
  encoder raise, which is the plain 500 response as well.
\<close>

datatype message = Message (role: string) (content: string)

record chat_request =
  messages :: "message list"
  user_id :: string

definition get_supabase_client :: "environment \<Rightarrow> http_response + unit" where
  "get_supabase_client env =
     (if falsy (supabase_url env) \<or> falsy (supabase_key env)
      then Inl \<lparr>status = 500, body = Detail ''Missing Supabase credentials''\<rparr>
      else case client_error env of
             Some msg \<Rightarrow> Inl \<lparr>status = 500, body = PlainText ''Internal Server Error''\<rparr>
           | None \<Rightarrow> Inr ())"

definition json_compliant :: "analysis_result \<Rightarrow> bool" where
  \<comment> \<open>the framework's JSON encoder refuses a float that is infinite or a NaN\<close>
  "json_compliant analysis = (is_finite (win_rate analysis) \<and> is_finite (avg_profit_loss analysis))"

definition app_chat ::
    "environment \<Rightarrow> trade_query \<Rightarrow> (nat \<Rightarrow> nat \<Rightarrow> nat list) \<Rightarrow> generator option
     \<Rightarrow> chat_request \<Rightarrow> http_response" where
  "app_chat env query choice generator request =
     (case get_supabase_client env of
        Inl response \<Rightarrow> response
      | Inr supabase \<Rightarrow>
          (let last_message =
                 (case find (\<lambda>msg. role msg = ''user'') (rev (messages request)) of
                    None \<Rightarrow> None
                  | Some msg \<Rightarrow> Some (content msg))
           in if falsy last_message
              then \<lparr>status = 200, body = ChatJson ''I didn't receive a message to respond to.'' None\<rparr>
              else
                (case query (user_id request) of
                   QueryFails msg \<Rightarrow>
                     \<lparr>status = 500, body = Detail (''Error processing chat: '' @ msg)\<rparr>
                 | QueryData trades \<Rightarrow>
                     (let analysis = app_analyze_trades choice trades
                      in case app_generate_coach_response generator
                                (case last_message of None \<Rightarrow> [] | Some text \<Rightarrow> text) analysis of
                           Inl e \<Rightarrow> \<lparr>status = 500, body = ExceptionDetail ''Error processing chat: '' e\<rparr>
                         | Inr coach_response \<Rightarrow>
                             (let coach_response =
                                    (if length coach_response > 1000
                                     then take 1000 coach_response @ ''... [response truncated]''
                                     else coach_response);
                                  analysis_dict = limit_returned analysis
                              in if json_compliant analysis_dict
                                 then \<lparr>status = 200,
                                       body = ChatJson coach_response (Some analysis_dict)\<rparr>
                                 else \<lparr>status = 500,
                                       body = PlainText ''Internal Server Error''\<rparr>)))))"

subsection \<open>functions/trade-analysis.py\<close>

text \<open>
  \<open>do_POST\<close> reads the body itself. Its first three statements (the \<open>Content-Length\<close>
  header, the read and \<open>json.loads\<close>) either raise, which the handler answers with 500
  and the exception's text (\<open>Inl\<close>), or give the request dictionary (\<open>Inr\<close>): the value
  under \<open>user_id\<close> if present, and the list under \<open>messages\<close> (empty if absent), each
  message with the values under \<open>role\<close> and \<open>content\<close> if present, all of them strings.
\<close>

datatype json_message = JsonMessage (get_role: "string option") (get_content: "string option")

datatype request_data = RequestData (get_user_id: "string option") (get_messages: "json_message list")

definition query_supabase :: "environment \<Rightarrow> trade_query \<Rightarrow> string \<Rightarrow> string + trade list" where
  \<comment> \<open>\<open>Inl msg\<close> is the result \<open>{"error": msg}\<close>, \<open>Inr rows\<close> the result \<open>{"data": rows}\<close>\<close>
  "query_supabase env query uid =
     (if falsy (supabase_url env) \<or> falsy (supabase_key env)
      then Inl ''Missing Supabase credentials''
      else case client_error env of
             Some msg \<Rightarrow> Inl msg
           | None \<Rightarrow> (case query uid of QueryFails msg \<Rightarrow> Inl msg | QueryData rows \<Rightarrow> Inr rows))"

definition fn_do_POST ::
    "environment \<Rightarrow> trade_query \<Rightarrow> bool \<Rightarrow> generator option \<Rightarrow> string + request_data
     \<Rightarrow> http_response" where
  "fn_do_POST env query has_transformers generator parsed =
     (case parsed of
        Inl msg \<Rightarrow> \<lparr>status = 500, body = ErrorJson msg\<rparr>
      | Inr request_data \<Rightarrow>
          (let uid = get_user_id request_data;
               msgs = get_messages request_data
           in if falsy uid then \<lparr>status = 400, body = ErrorJson ''Missing user_id''\<rparr>
              else
                (let last_message =
                       (case find (\<lambda>msg. get_role msg = Some ''user'') (rev msgs) of
                          None \<Rightarrow> None
                        | Some msg \<Rightarrow> get_content msg)
                 in if falsy last_message
                    then \<lparr>status = 400, body = ErrorJson ''No user message found''\<rparr>
                    else
                      (case query_supabase env query (case uid of None \<Rightarrow> [] | Some u \<Rightarrow> u) of
                         Inl msg \<Rightarrow> \<lparr>status = 500, body = ErrorJson msg\<rparr>
                       | Inr trades \<Rightarrow>
                           (let analysis = fn_analyze_trades trades
                            in case fn_generate_coach_response has_transformers generator
                                      (case last_message of None \<Rightarrow> [] | Some text \<Rightarrow> text)
                                      analysis of
                                 Inl e \<Rightarrow> \<lparr>status = 500, body = ExceptionJson e\<rparr>
                               | Inr coach_response \<Rightarrow>
                                   \<lparr>status = 200,
                                    body = ChatJson coach_response (Some analysis)\<rparr>)))))"

section \<open>The specification's terms\<close>





definition trade_labels :: "trade list \<Rightarrow> string list" where
  "trade_labels trades = [l \<leftarrow> map (\<lambda>t. strip (get_trade_type t)) trades. l \<noteq> []]"

definition group_size :: "string list \<Rightarrow> string \<Rightarrow> nat" where
  "group_size labels l = length [x \<leftarrow> labels. x = l]"

definition first_appearance :: "string list \<Rightarrow> string \<Rightarrow> nat" where
  "first_appearance labels l = length (takeWhile (\<lambda>x. x \<noteq> l) labels)"

definition ranks_before :: "string list \<Rightarrow> string \<Rightarrow> string \<Rightarrow> bool" where
  "ranks_before labels a b =
     (group_size labels a > group_size labels b
      \<or> (group_size labels a = group_size labels b
          \<and> first_appearance labels a < first_appearance labels b))"

text \<open>The diversity strength with the count \<open>n\<close> in it.\<close>

definition diverse_text :: "nat \<Rightarrow> string" where
  "diverse_text n = ''Diverse trading approaches ('' @ str_nat n @ '' different strategies)''"

text \<open>
  The findings expected of a losing record with a note of fear: both weaknesses, and the
  suggestion on emotional discipline exactly when the input has more than two distinct
  labels (with two or fewer it is the fourth suggestion, and three are kept).
\<close>

definition fear_phrase :: string where
  "fear_phrase = ''I felt fear during this trade''"

definition fear_findings :: "trade list \<Rightarrow> analysis_result \<Rightarrow> bool" where
  "fear_findings trades r =
     (''Below 50% win rate'' \<in> set (weaknesses r)
      \<and> ''Emotional trading noted in multiple trades'' \<in> set (weaknesses r)
      \<and> ((''Work on emotional discipline during trading'' \<in> set (suggestions r))
           = (card (set (trade_labels trades)) > 2)))"

text \<open>
  The backend fails on a prompt when the call raises, returns no sequence, returns a
  first sequence without \<open>'generated_text'\<close>, or one whose value is not a string.
\<close>

definition backend_fails :: "generator \<Rightarrow> string \<Rightarrow> bool" where
  "backend_fails g prompt =
     (case generated_text_of (g prompt 150 1) of
        Inl e \<Rightarrow> True
      | Inr v \<Rightarrow> (case advice_part_of v of Inl e \<Rightarrow> True | Inr advice \<Rightarrow> False))"

text \<open>
  One pass of the counting loop on a label that is kept: \<open>strategies_count[strategy] =
  strategies_count.get(strategy, 0) + 1\<close>. The loop over the records is a left fold of
  this update over their labels.
\<close>

definition bump :: "(string \<times> int) list \<Rightarrow> string \<Rightarrow> (string \<times> int) list" where
  "bump d k = dict_set d k (dict_get d k 0 + 1)"

subsection \<open>Concrete inputs\<close>

text \<open>Six records with six different labels, no \<open>pnl\<close> and no notes.\<close>

definition six_strategies :: "trade list" where
  "six_strategies = map (\<lambda>s. \<lparr>trade_type = Some s, pnl = None, notes = None\<rparr>)
     [''a'', ''b'', ''c'', ''d'', ''e'', ''f'']"

text \<open>Five records with three labels, two of them tied, one padded with blanks and one blank.\<close>

definition tied_strategies :: "trade list" where
  "tied_strategies = map (\<lambda>s. \<lparr>trade_type = Some s, pnl = None, notes = None\<rparr>)
     [''swing'', '' scalp'', ''   '', ''scalp '', ''swing'', ''hedge'']"

text \<open>
  A losing record with the note of fear and no label; a record without notes; 51 records
  with the note of fear on the last one; three losing records with three labels.
\<close>

definition fear_trade :: trade where
  "fear_trade = \<lparr>trade_type = None, pnl = Some (Finite (- 1)), notes = Some ''I felt fear during this trade''\<rparr>"

definition quiet_trade :: trade where
  "quiet_trade = \<lparr>trade_type = None, pnl = Some (Finite 0), notes = None\<rparr>"

definition late_fear :: "trade list" where
  "late_fear = replicate 50 quiet_trade @ [fear_trade]"

definition fear_three :: "trade list" where
  "fear_three =
     [\<lparr>trade_type = Some ''scalp'', pnl = Some (Finite (- 5)), notes = Some ''I felt fear during this trade''\<rparr>,
      \<lparr>trade_type = Some ''swing'', pnl = Some (Finite 0), notes = None\<rparr>,
      \<lparr>trade_type = Some ''hedge'', pnl = None, notes = Some []\<rparr>]"



text \<open>
  An environment with credentials, a backend whose completion is empty and a backend that
  raises.
\<close>

definition good_env :: environment where
  "good_env = \<lparr>supabase_url = Some ''https://db.example'', supabase_key = Some ''service-key'',
               client_error = None\<rparr>"

definition silent_backend :: generator where
  "silent_backend = (\<lambda>prompt max_length num_return_sequences. Returns [Some (Str [])])"

definition broken_backend :: generator where
  "broken_backend = (\<lambda>prompt max_length num_return_sequences. Raises (RuntimeError ''out of memory''))"

section \<open>Properties of analyze_trades\<close>

subsection \<open>Empty input\<close>

text \<open>
  C2. For the empty list of trade records both implementations of \<open>analyze_trades\<close> return
  the degenerate result: win rate and average profit/loss \<open>0.0\<close>, no strategies, strengths
  or weaknesses, and the single suggestion to start recording trades. The early return is
  taken before any field of a record is read, so nothing can fail.
\<close>

theorem analyze_trades_empty:
  "fn_analyze_trades [] =
     \<lparr>win_rate = Finite 0, avg_profit_loss = Finite 0, strategies = [], strengths = [],
      weaknesses = [],
      suggestions = [''Start recording your trades to get personalized analysis.'']\<rparr>
   \<and> app_analyze_trades choice [] =
     \<lparr>win_rate = Finite 0, avg_profit_loss = Finite 0, strategies = [], strengths = [],
      weaknesses = [],
      suggestions = [''Start recording your trades to get personalized analysis.'']\<rparr>"
  by (simp add: fn_analyze_trades_def app_analyze_trades_def empty_analysis_def)

subsection \<open>Win rate and average profit/loss\<close>

lemma app_sample_small:
  "length trades \<le> 50 \<Longrightarrow> app_sampled_trades choice trades = trades"
  by (simp add: app_sampled_trades_def)

lemma sum_ones_filter:
  "sum_list [1 :: int. x \<leftarrow> xs, P x] = int (length (filter P xs))"
  by (induction xs) simp_all








lemma round_half_even_nonneg: "0 \<le> y \<Longrightarrow> 0 \<le> round_half_even y"
  by (auto simp add: round_half_even_def Let_def)















subsection \<open>Size limits\<close>

lemma limit_returned_id:
  assumes "length (strategies r) \<le> 5" "length (strengths r) \<le> 3"
    "length (weaknesses r) \<le> 3" "length (suggestions r) \<le> 3"
  shows "limit_returned r = r"
  using assms by (simp add: limit_returned_def)

lemma limit_returned_twice: "limit_returned (limit_returned r) = limit_returned r"
  by (rule limit_returned_id) (simp_all add: limit_returned_def)

lemma fn_lengths:
  "length (strategies (fn_analyze_trades trades)) \<le> 5"
  "length (strengths (fn_analyze_trades trades)) \<le> 3"
  "length (weaknesses (fn_analyze_trades trades)) \<le> 3"
  "length (suggestions (fn_analyze_trades trades)) \<le> 3"
  by (simp_all add: fn_analyze_trades_def empty_analysis_def Let_def split: prod.splits)

lemma app_lengths:
  "length (strategies (app_analyze_trades choice trades)) \<le> 5"
  "length (strengths (app_analyze_trades choice trades)) \<le> 3"
  "length (weaknesses (app_analyze_trades choice trades)) \<le> 3"
  "length (suggestions (app_analyze_trades choice trades)) \<le> 3"
  by (simp_all add: app_analyze_trades_def empty_analysis_def Let_def split: prod.splits)

text \<open>
  C3. For every input the result of \<open>analyze_trades\<close> has at most 5 strategies and at most
  3 strengths, 3 weaknesses and 3 suggestions, and the size limit applied again at the
  HTTP boundary leaves such a result unchanged; applied to any result \<open>r\<close>, the size limit
  is idempotent.
\<close>

theorem analyze_trades_caps:
  "length (strategies (fn_analyze_trades trades)) \<le> 5
   \<and> length (strengths (fn_analyze_trades trades)) \<le> 3
   \<and> length (weaknesses (fn_analyze_trades trades)) \<le> 3
   \<and> length (suggestions (fn_analyze_trades trades)) \<le> 3
   \<and> length (strategies (app_analyze_trades choice trades)) \<le> 5
   \<and> length (strengths (app_analyze_trades choice trades)) \<le> 3
   \<and> length (weaknesses (app_analyze_trades choice trades)) \<le> 3
   \<and> length (suggestions (app_analyze_trades choice trades)) \<le> 3
   \<and> limit_returned (fn_analyze_trades trades) = fn_analyze_trades trades
   \<and> limit_returned (app_analyze_trades choice trades) = app_analyze_trades choice trades
   \<and> limit_returned (limit_returned r) = limit_returned r"
  by (simp add: fn_lengths app_lengths limit_returned_id limit_returned_twice)

subsection \<open>The two implementations on at most 50 records\<close>

text \<open>
  C10. On a list of at most 50 trade records the notes sample of \<open>app.py\<close> is the whole
  list in input order, whatever the random generator would draw, as is the sample of
  \<open>functions/trade-analysis.py\<close>, and the two implementations of \<open>analyze_trades\<close> return
  the same result in all six fields.
\<close>

theorem analyze_trades_agree:
  assumes "length trades \<le> 50"
  shows "app_sampled_trades choice trades = trades
       \<and> take (min 50 (length trades)) trades = trades
       \<and> app_analyze_trades choice trades = fn_analyze_trades trades"
  using assms by (simp add: app_sample_small app_analyze_trades_def fn_analyze_trades_def)

theorem analyze_trades_agree_witness:
  "app_analyze_trades (\<lambda>n k. [7, 8, 9]) six_strategies = fn_analyze_trades six_strategies"
  using analyze_trades_agree [of six_strategies "\<lambda>n k. [7, 8, 9]"]
  by (simp add: six_strategies_def)

subsection \<open>The ranking of the strategies\<close>

lemma count_strategies_foldl:
  "count_strategies trades d = foldl bump d (trade_labels trades)"
  by (induction trades arbitrary: d) (simp_all add: trade_labels_def bump_def Let_def)

lemma dict_keys_set:
  "dict_keys (dict_set d k v) = (if k \<in> set (dict_keys d) then dict_keys d else dict_keys d @ [k])"
  by (induction d) (force simp add: dict_keys_def split: if_splits)+

lemma map_of_dict_set: "map_of (dict_set d k v) = (map_of d)(k \<mapsto> v)"
  by (induction d) (auto simp add: fun_eq_iff)

lemma dict_get_set:
  "dict_get (dict_set d k v) k' dflt = (if k' = k then v else dict_get d k' dflt)"
  by (simp add: dict_get_def map_of_dict_set)

lemma keys_foldl_bump:
  "dict_keys (foldl bump [] ls) = rev (remdups (rev ls))"
proof (induction ls rule: rev_induct)
  case Nil
  show ?case by (simp add: dict_keys_def)
next
  case (snoc k ls)
  then show ?case by (simp add: bump_def dict_keys_set)
qed

lemma counts_foldl_bump:
  "dict_get (foldl bump [] ls) k 0 = int (length [x \<leftarrow> ls. x = k])"
proof (induction ls rule: rev_induct)
  case Nil
  show ?case by (simp add: dict_get_def)
next
  case (snoc k' ls)
  then show ?case by (auto simp add: bump_def dict_get_set)
qed

lemma first_appearance_snoc:
  "a \<in> set ls \<Longrightarrow> length (takeWhile (\<lambda>x. x \<noteq> a) (ls @ [k])) = length (takeWhile (\<lambda>x. x \<noteq> a) ls)"
  "a \<notin> set ls \<Longrightarrow> length (takeWhile (\<lambda>x. x \<noteq> a) (ls @ [a])) = length ls"
  by (induction ls) auto

lemma first_appearance_less:
  "a \<in> set ls \<Longrightarrow> length (takeWhile (\<lambda>x. x \<noteq> a) ls) < length ls"
  by (induction ls) auto

lemma first_seen_ordered:
  "sorted_wrt (\<lambda>a b. length (takeWhile (\<lambda>x. x \<noteq> a) ls) < length (takeWhile (\<lambda>x. x \<noteq> b) ls))
     (rev (remdups (rev ls)))"
proof (induction ls rule: rev_induct)
  case Nil
  show ?case by simp
next
  case (snoc k ls)
  let ?P = "\<lambda>ls a b. length (takeWhile (\<lambda>x. x \<noteq> a) ls) < length (takeWhile (\<lambda>x. x \<noteq> b) ls)"
  let ?keys = "rev (remdups (rev ls))"
  have keys: "set ?keys = set ls" by simp
  have old: "sorted_wrt (?P (ls @ [k])) ?keys"
  proof (rule sorted_wrt_mono_rel [OF _ snoc.IH])
    fix a b assume "a \<in> set ?keys" "b \<in> set ?keys" "?P ls a b"
    then show "?P (ls @ [k]) a b" by (simp add: first_appearance_snoc)
  qed
  show ?case
  proof (cases "k \<in> set ls")
    case True
    then show ?thesis using old by simp
  next
    case False
    have "\<forall>a \<in> set ls. ?P (ls @ [k]) a k"
      using False by (simp add: first_appearance_snoc first_appearance_less)
    then show ?thesis using old False by (simp add: sorted_wrt_append)
  qed
qed

lemma insort_key_stable_order:
  assumes "sorted_wrt (\<lambda>a b. key a < key b \<or> (key a = key b \<and> Q a b)) ys"
    and "\<forall>y \<in> set ys. Q x y"
  shows "sorted_wrt (\<lambda>a b. key a < key b \<or> (key a = key b \<and> Q a b)) (insort_key key x ys)"
  using assms
proof (induction ys)
  case Nil
  show ?case by simp
next
  case (Cons y ys)
  show ?case
  proof (cases "key x \<le> key y")
    case True
    have "\<forall>z \<in> set ys. key y \<le> key z" using Cons.prems(1) by auto
    then have "\<forall>z \<in> set (y # ys). key x < key z \<or> (key x = key z \<and> Q x z)"
      using True Cons.prems(2) by fastforce
    then show ?thesis using True Cons.prems(1) by simp
  next
    case False
    then show ?thesis using Cons by (auto simp add: set_insort_key)
  qed
qed

lemma sort_key_stable_order:
  fixes key :: "'a \<Rightarrow> int"
  assumes "sorted_wrt Q xs"
  shows "sorted_wrt (\<lambda>a b. key a < key b \<or> (key a = key b \<and> Q a b)) (sort_key key xs)"
  using assms
proof (induction xs)
  case Nil
  show ?case by simp
next
  case (Cons x xs)
  then show ?case by (simp add: insort_key_stable_order)
qed

lemma sorted_py_reverse_order:
  fixes key :: "'a \<Rightarrow> int"
  assumes "sorted_wrt Q xs"
  shows "sorted_wrt (\<lambda>a b. key a > key b \<or> (key a = key b \<and> Q a b)) (sorted_py key True xs)"
proof -
  have "sorted_wrt (\<lambda>a b. Q b a) (rev xs)" using assms by (simp add: sorted_wrt_rev)
  then have "sorted_wrt (\<lambda>a b. key a < key b \<or> (key a = key b \<and> Q b a)) (sort_key key (rev xs))"
    by (rule sort_key_stable_order)
  then have "sorted_wrt (\<lambda>a b. key b < key a \<or> (key b = key a \<and> Q a b)) (rev (sort_key key (rev xs)))"
    by (simp add: sorted_wrt_rev)
  then show ?thesis
    by (simp add: sorted_py_def eq_commute [of "key _" "key _"] cong: conj_cong)
qed

lemma ranked_strategies_props:
  "distinct (ranked_strategies trades)"
  "set (ranked_strategies trades) = set (trade_labels trades)"
  "sorted_wrt (ranks_before (trade_labels trades)) (ranked_strategies trades)"
proof -
  let ?ls = "trade_labels trades"
  let ?d = "foldl bump [] ?ls"
  have r: "ranked_strategies trades = sorted_py (\<lambda>s. dict_get ?d s 0) True (rev (remdups (rev ?ls)))"
    by (simp add: ranked_strategies_def count_strategies_foldl keys_foldl_bump)
  show "distinct (ranked_strategies trades)"
    by (simp add: r sorted_py_def)
  show "set (ranked_strategies trades) = set (trade_labels trades)"
    by (simp add: r sorted_py_def)
  have "sorted_wrt (\<lambda>a b. dict_get ?d a 0 > dict_get ?d b 0
          \<or> (dict_get ?d a 0 = dict_get ?d b 0 \<and> first_appearance ?ls a < first_appearance ?ls b))
        (ranked_strategies trades)"
    unfolding r first_appearance_def
    by (rule sorted_py_reverse_order [OF first_seen_ordered])
  moreover have "ranks_before ?ls = (\<lambda>a b. dict_get ?d a 0 > dict_get ?d b 0
          \<or> (dict_get ?d a 0 = dict_get ?d b 0 \<and> first_appearance ?ls a < first_appearance ?ls b))"
    by (simp add: fun_eq_iff counts_foldl_bump ranks_before_def group_size_def)
  ultimately show "sorted_wrt (ranks_before (trade_labels trades)) (ranked_strategies trades)"
    by simp
qed

lemma strategies_take:
  "strategies (fn_analyze_trades trades) = take 5 (ranked_strategies trades)"
  "strategies (app_analyze_trades choice trades) = take 5 (ranked_strategies trades)"
proof -
  have "ranked_strategies [] = []"
    by (simp add: ranked_strategies_def sorted_py_def dict_keys_def)
  then show "strategies (fn_analyze_trades trades) = take 5 (ranked_strategies trades)"
    and "strategies (app_analyze_trades choice trades) = take 5 (ranked_strategies trades)"
    by (simp_all add: fn_analyze_trades_def app_analyze_trades_def empty_analysis_def Let_def
        split: prod.splits)
qed

lemma sorted_wrt_unique:
  assumes "\<And>a b. R a b \<Longrightarrow> \<not> R b a"
    and "sorted_wrt R xs" "sorted_wrt R ys" "distinct xs" "distinct ys" "set xs = set ys"
  shows "xs = ys"
  using assms(2-)
proof (induction xs arbitrary: ys)
  case Nil
  then show ?case by simp
next
  case (Cons x xs)
  then obtain y ys' where ys: "ys = y # ys'" by (cases ys) auto
  have "x = y"
  proof (rule ccontr)
    assume "x \<noteq> y"
    then have "x \<in> set ys'" "y \<in> set xs" using Cons.prems(5) ys by auto
    then have "R y x" "R x y" using Cons.prems(1,2) ys by auto
    then show False using assms(1) by blast
  qed
  moreover have "set xs = set ys'" using Cons.prems(3,4,5) ys \<open>x = y\<close> by auto
  ultimately show ?case using Cons ys by auto
qed

lemma ranks_before_asym: "ranks_before labels a b \<Longrightarrow> \<not> ranks_before labels b a"
  by (auto simp add: ranks_before_def)

text \<open>
  C9. For every input the \<open>strategies\<close> field is the first 5 entries of the ranking of the
  labels: the list of the distinct trimmed non-empty \<open>trade_type\<close> labels (a record whose
  trimmed label is empty contributes nothing), ordered by descending group size, labels of
  equal group size in the order of their first appearance in the input. The ranking is
  the only list with these properties.
\<close>

theorem strategies_ranked:
  "distinct (ranked_strategies trades)
   \<and> set (ranked_strategies trades) = set (trade_labels trades)
   \<and> sorted_wrt (ranks_before (trade_labels trades)) (ranked_strategies trades)
   \<and> (\<forall>ranking. distinct ranking \<and> set ranking = set (trade_labels trades)
         \<and> sorted_wrt (ranks_before (trade_labels trades)) ranking
       \<longrightarrow> ranking = ranked_strategies trades)
   \<and> strategies (fn_analyze_trades trades) = take 5 (ranked_strategies trades)
   \<and> strategies (app_analyze_trades choice trades) = take 5 (ranked_strategies trades)"
proof -
  have "ranking = ranked_strategies trades"
    if "distinct ranking \<and> set ranking = set (trade_labels trades)
         \<and> sorted_wrt (ranks_before (trade_labels trades)) ranking" for ranking
    using that ranked_strategies_props [of trades]
    by (intro sorted_wrt_unique [of "ranks_before (trade_labels trades)"]) (auto dest: ranks_before_asym)
  then show ?thesis
    by (simp add: ranked_strategies_props strategies_take)
qed

lemma tied_labels: "trade_labels tied_strategies = [''swing'', ''scalp'', ''scalp'', ''swing'', ''hedge'']"
  by code_simp

lemma tied_ranking_ok:
  "distinct [''swing'', ''scalp'', ''hedge'']
   \<and> set [''swing'', ''scalp'', ''hedge''] = set (trade_labels tied_strategies)
   \<and> sorted_wrt (ranks_before (trade_labels tied_strategies)) [''swing'', ''scalp'', ''hedge'']"
  unfolding tied_labels by (auto simp add: ranks_before_def group_size_def first_appearance_def)

theorem strategies_ranked_witness:
  "strategies (fn_analyze_trades tied_strategies) = [''swing'', ''scalp'', ''hedge'']
   \<and> strategies (app_analyze_trades (\<lambda>n k. []) tied_strategies) = [''swing'', ''scalp'', ''hedge'']"
proof -
  have "ranked_strategies tied_strategies = [''swing'', ''scalp'', ''hedge'']"
    using strategies_ranked [of tied_strategies "\<lambda>n k. []"] tied_ranking_ok by metis
  then show ?thesis
    using strategies_ranked [of tied_strategies "\<lambda>n k. []"] by simp
qed

subsection \<open>The count in the diversity strength\<close>

lemma length_ranked: "length (ranked_strategies trades) = card (set (trade_labels trades))"
  using ranked_strategies_props(1,2) [of trades] by (metis distinct_card)

lemma diverse_kept:
  assumes "length strats > 2"
  shows "diverse_text (length strats) \<in> set (take 3 (fst (notes_rule sampled
           (diversity_rule strats (avg_pnl_rule avg_pnl (win_rate_rule wr ([], [], [])))))))"
  using assms
  by (simp add: diverse_text_def notes_rule_def diversity_rule_def avg_pnl_rule_def win_rate_rule_def Let_def
      split: prod.splits)

lemma fn_strengths:
  "trades \<noteq> [] \<Longrightarrow> strengths (fn_analyze_trades trades) =
     take 3 (fst (notes_rule (take (min 50 (length trades)) trades)
       (diversity_rule (take 5 (ranked_strategies trades))
          (avg_pnl_rule (avg_profit_loss (fn_analyze_trades trades))
             (win_rate_rule (win_rate (fn_analyze_trades trades)) ([], [], []))))))"
  by (simp add: fn_analyze_trades_def Let_def split: prod.splits)

lemma app_strengths:
  "trades \<noteq> [] \<Longrightarrow> strengths (app_analyze_trades choice trades) =
     take 3 (fst (notes_rule (app_sampled_trades choice trades)
       (diversity_rule (take 5 (ranked_strategies trades))
          (avg_pnl_rule (avg_profit_loss (app_analyze_trades choice trades))
             (win_rate_rule (win_rate (app_analyze_trades choice trades)) ([], [], []))))))"
  by (simp add: app_analyze_trades_def Let_def split: prod.splits)

text \<open>
  C4, as amended. When the input has more than 2 distinct trimmed non-empty labels, the
  strengths of the result contain "Diverse trading approaches (N different strategies)"
  where N is the number of entries of the \<open>strategies\<close> field: the number of distinct
  labels capped at 5.
\<close>

theorem diverse_count_capped:
  assumes "card (set (trade_labels trades)) > 2"
  shows "diverse_text (min 5 (card (set (trade_labels trades)))) \<in> set (strengths (fn_analyze_trades trades))
       \<and> diverse_text (min 5 (card (set (trade_labels trades))))
           \<in> set (strengths (app_analyze_trades choice trades))
       \<and> length (strategies (fn_analyze_trades trades)) = min 5 (card (set (trade_labels trades)))
       \<and> length (strategies (app_analyze_trades choice trades)) = min 5 (card (set (trade_labels trades)))"
proof -
  let ?strats = "take 5 (ranked_strategies trades)"
  have ne: "trades \<noteq> []" using assms by (auto simp add: trade_labels_def)
  have len: "length ?strats = min 5 (card (set (trade_labels trades)))"
    by (simp add: length_ranked min.commute)
  then have big: "length ?strats > 2" using assms by simp
  have "diverse_text (length ?strats) \<in> set (strengths (fn_analyze_trades trades))"
    unfolding fn_strengths [OF ne] by (rule diverse_kept [OF big])
  moreover have "diverse_text (length ?strats) \<in> set (strengths (app_analyze_trades choice trades))"
    unfolding app_strengths [OF ne] by (rule diverse_kept [OF big])
  moreover have "strategies (fn_analyze_trades trades) = ?strats"
    "strategies (app_analyze_trades choice trades) = ?strats"
    by (simp_all add: strategies_take)
  ultimately show ?thesis using len by simp
qed

lemma six_labels: "trade_labels six_strategies = [''a'', ''b'', ''c'', ''d'', ''e'', ''f'']"
  by code_simp

lemma six_fn: "strengths (fn_analyze_trades six_strategies) = [''Diverse trading approaches (5 different strategies)'']"
  by code_simp

lemma six_app: "strengths (app_analyze_trades choice six_strategies) = [''Diverse trading approaches (5 different strategies)'']"
  using six_fn by (simp add: six_strategies_def app_sample_small app_analyze_trades_def fn_analyze_trades_def)

text \<open>
  C4 as stated fails: on six records with six different labels the text carries the
  count 5, not the number 6 of distinct labels.
\<close>

theorem diverse_count_counterexample:
  "card (set (trade_labels six_strategies)) = 6
   \<and> ''Diverse trading approaches (6 different strategies)''
        \<notin> set (strengths (fn_analyze_trades six_strategies))
   \<and> ''Diverse trading approaches (6 different strategies)''
        \<notin> set (strengths (app_analyze_trades (\<lambda>n k. []) six_strategies))
   \<and> strengths (fn_analyze_trades six_strategies) = [''Diverse trading approaches (5 different strategies)'']"
  by (simp add: six_labels six_fn six_app)

lemma diverse_text_5: "diverse_text 5 = ''Diverse trading approaches (5 different strategies)''"
  by code_simp

theorem diverse_count_capped_witness:
  "''Diverse trading approaches (5 different strategies)'' \<in> set (strengths (fn_analyze_trades six_strategies))
   \<and> length (strategies (fn_analyze_trades six_strategies)) = 5"
proof -
  have "card (set (trade_labels six_strategies)) = 6" by (simp add: six_labels)
  then show ?thesis
    using diverse_count_capped [of six_strategies "\<lambda>n k. []"] by (simp add: diverse_text_5)
qed

subsection \<open>A note of fear in losing trades\<close>

lemma str_in_iff: "str_in sub s \<longleftrightarrow> (\<exists>p q. s = p @ sub @ q)"
proof (induction s)
  case Nil
  show ?case by auto
next
  case (Cons c cs)
  show ?case
  proof
    assume "str_in sub (c # cs)"
    then consider "prefix sub (c # cs)" | "str_in sub cs" by auto
    then show "\<exists>p q. c # cs = p @ sub @ q"
    proof cases
      case 1
      then obtain q where "c # cs = sub @ q" by (auto simp add: prefix_def)
      then have "c # cs = [] @ sub @ q" by simp
      then show ?thesis by blast
    next
      case 2
      then obtain p q where "cs = p @ sub @ q" using Cons.IH by blast
      then have "c # cs = (c # p) @ sub @ q" by simp
      then show ?thesis by blast
    qed
  next
    assume "\<exists>p q. c # cs = p @ sub @ q"
    then obtain p q where pq: "c # cs = p @ sub @ q" by blast
    show "str_in sub (c # cs)"
    proof (cases p)
      case Nil
      then have "prefix sub (c # cs)" using pq by (simp add: prefix_def)
      then show ?thesis by simp
    next
      case (Cons c' p')
      then have "cs = p' @ sub @ q" using pq by simp
      then have "str_in sub cs" using Cons.IH by blast
      then show ?thesis by simp
    qed
  qed
qed

lemma str_in_join:
  assumes "n \<in> set ns" "str_in sub n"
  shows "str_in sub (join sep ns)"
proof -
  have "\<exists>p q. join sep ns = p @ n @ q" using assms(1)
  proof (induction sep ns rule: join.induct)
    case (1 sep)
    then show ?case by simp
  next
    case (2 sep x)
    then have "join sep [x] = [] @ n @ []" by simp
    then show ?case by blast
  next
    case (3 sep x y ys)
    show ?case
    proof (cases "n = x")
      case True
      then have "join sep (x # y # ys) = [] @ n @ (sep @ join sep (y # ys))" by simp
      then show ?thesis by blast
    next
      case False
      then obtain p q where "join sep (y # ys) = p @ n @ q" using 3 by auto
      then have "join sep (x # y # ys) = (x @ sep @ p) @ n @ q" by simp
      then show ?thesis by blast
    qed
  qed
  then obtain p q where j: "join sep ns = p @ n @ q" by blast
  obtain p' q' where "n = p' @ sub @ q'" using assms(2) by (auto simp add: str_in_iff)
  then have "join sep ns = (p @ p') @ sub @ (q' @ q)" using j by simp
  then show ?thesis unfolding str_in_iff by blast
qed

lemma str_in_lower:
  assumes "str_in sub s"
  shows "str_in (lower sub) (lower s)"
proof -
  obtain p q where "s = p @ sub @ q" using assms by (auto simp add: str_in_iff)
  then have "lower s = lower p @ lower sub @ lower q" by (simp add: lower_def)
  then show ?thesis unfolding str_in_iff by blast
qed

lemma str_in_trans:
  assumes "str_in a b" "str_in b c"
  shows "str_in a c"
proof -
  obtain p q where b: "b = p @ a @ q" using assms(1) by (auto simp add: str_in_iff)
  obtain p' q' where "c = p' @ b @ q'" using assms(2) by (auto simp add: str_in_iff)
  then have "c = (p' @ p) @ a @ (q @ q')" using b by simp
  then show ?thesis unfolding str_in_iff by blast
qed

lemma lower_fear_phrase: "lower fear_phrase = ''i felt fear during this trade''"
  by code_simp

lemma fear_in_phrase: "str_in ''fear'' (lower fear_phrase)"
  unfolding lower_fear_phrase by simp

lemma take_min_length: "take (min n (length xs)) xs = take n xs"
  by (simp add: min_def)

lemma fn_result:
  "trades \<noteq> [] \<Longrightarrow> fn_analyze_trades trades =
     (let lists = notes_rule (take 50 trades)
            (diversity_rule (take 5 (ranked_strategies trades))
              (avg_pnl_rule (dquot (float_sum (map get_pnl trades)) (length trades))
                (win_rate_rule (round_double (of_nat (length (filter (\<lambda>t. dgt (get_pnl t) 0) trades)) / of_nat (length trades)))
                   ([], [], []))))
      in \<lparr>win_rate = round_double (of_nat (length (filter (\<lambda>t. dgt (get_pnl t) 0) trades)) / of_nat (length trades)),
          avg_profit_loss = dquot (float_sum (map get_pnl trades)) (length trades),
          strategies = take 5 (ranked_strategies trades),
          strengths = take 3 (fst lists), weaknesses = take 3 (fst (snd lists)),
          suggestions = take 3 (snd (snd lists))\<rparr>)"
  by (simp add: fn_analyze_trades_def Let_def sum_ones_filter take_min_length case_prod_beta)

lemma app_result:
  "trades \<noteq> [] \<Longrightarrow> app_analyze_trades choice trades =
     (let lists = notes_rule (app_sampled_trades choice trades)
            (diversity_rule (take 5 (ranked_strategies trades))
              (avg_pnl_rule (dquot (float_sum (map get_pnl trades)) (length trades))
                (win_rate_rule (round_double (of_nat (length (filter (\<lambda>t. dgt (get_pnl t) 0) trades)) / of_nat (length trades)))
                   ([], [], []))))
      in \<lparr>win_rate = round_double (of_nat (length (filter (\<lambda>t. dgt (get_pnl t) 0) trades)) / of_nat (length trades)),
          avg_profit_loss = dquot (float_sum (map get_pnl trades)) (length trades),
          strategies = take 5 (ranked_strategies trades),
          strengths = take 3 (fst lists), weaknesses = take 3 (fst (snd lists)),
          suggestions = take 3 (snd (snd lists))\<rparr>)"
  by (simp add: app_analyze_trades_def Let_def sum_ones_filter case_prod_beta)

lemma notes_rule_fear:
  assumes "t \<in> set sampled" "notes t = Some s" "str_in fear_phrase s"
  shows "snd (notes_rule sampled (st, wk, sg)) =
           (wk @ [''Emotional trading noted in multiple trades''],
            sg @ [''Work on emotional discipline during trading''])"
proof -
  let ?notes = "[get_notes trade. trade \<leftarrow> sampled, has_notes trade]"
  let ?all = "join '' '' ?notes"
  have "s \<noteq> []" using assms(3) by (auto simp add: fear_phrase_def)
  then have "s \<in> set ?notes" using assms(1,2) by (force simp add: get_notes_def has_notes_def)
  then have "str_in fear_phrase ?all" using assms(3) by (rule str_in_join)
  then have "str_in (lower fear_phrase) (lower ?all)" by (rule str_in_lower)
  then have fear: "str_in ''fear'' (lower ?all)" using fear_in_phrase by (rule str_in_trans [rotated])
  then have "lower ?all \<noteq> []" by auto
  then have "?all \<noteq> []" by (auto simp add: lower_def)
  then show ?thesis using fear
    by (simp add: notes_rule_def Let_def split: prod.splits)
qed

lemma losing_rules:
  assumes "\<not> dgt wr (1 / 2)" "\<not> dgt avg 0"
  shows "snd (diversity_rule strats (avg_pnl_rule avg (win_rate_rule wr ([], [], [])))) =
           ([''Below 50% win rate'', ''Negative average P&L''],
            [''Focus on improving your win rate by reviewing losing trades'',
             ''Work on improving your average profit per trade'']
            @ (if length strats > 2 then []
               else [''Consider exploring more trading strategies to diversify your approach'']))"
  using assms by (simp add: diversity_rule_def avg_pnl_rule_def win_rate_rule_def)

lemma fear_lists:
  assumes "\<not> dgt wr (1 / 2)" "\<not> dgt avg 0" "t \<in> set sampled" "notes t = Some s" "str_in fear_phrase s"
  shows "snd (notes_rule sampled (diversity_rule strats (avg_pnl_rule avg (win_rate_rule wr ([], [], []))))) =
           ([''Below 50% win rate'', ''Negative average P&L'', ''Emotional trading noted in multiple trades''],
            [''Focus on improving your win rate by reviewing losing trades'',
             ''Work on improving your average profit per trade'']
            @ (if length strats > 2 then []
               else [''Consider exploring more trading strategies to diversify your approach''])
            @ [''Work on emotional discipline during trading''])"
proof -
  obtain st wk sg where d: "diversity_rule strats (avg_pnl_rule avg (win_rate_rule wr ([], [], []))) = (st, wk, sg)"
    by (cases "diversity_rule strats (avg_pnl_rule avg (win_rate_rule wr ([], [], [])))") auto
  show ?thesis
    using losing_rules [OF assms(1,2), of strats] notes_rule_fear [OF assms(3,4,5), of st wk sg]
    by (simp add: d)
qed

text \<open>A float sum of values that are at most 0 is at most 0, and so is its quotient.\<close>

lemma dle_not_dgt: "dle v 0 \<Longrightarrow> \<not> dgt v 0"
  by (cases v) (simp_all add: dle_def dgt_def)

lemma round_double_nonpos:
  assumes "x \<le> 0"
  shows "dle (round_double x) 0"
proof (cases "x = 0")
  case True
  then show ?thesis by (simp add: round_double_def dle_def)
next
  case False
  then have neg: "x < 0" using assms by simp
  then have ax: "\<bar>x\<bar> = - x" by simp
  define e where "e = max (ilog 2 (- x) - 52) (- 1074)"
  define m where "m = round_half_even ((- x) / 2 powi e)"
  have "(0 :: rat) < 2 powi e" by simp
  then have "0 \<le> (- x) / 2 powi e" using neg by (intro divide_nonneg_pos) simp_all
  then have "0 \<le> m" unfolding m_def by (rule round_half_even_nonneg)
  then have nn: "0 \<le> of_int m * (2 :: rat) powi e" by simp
  have "round_double x =
          (if e > 971 \<or> (e = 971 \<and> m = 2 ^ 53) then NegInf
           else if m = 0 then NegZero else Finite (- (of_int m * 2 powi e)))"
  proof -
    have "\<not> 0 < x" using neg by simp
    then show ?thesis
      unfolding round_double_def Let_def e_def m_def ax using False by (simp only: if_False)
  qed
  then show ?thesis using nn by (simp add: dle_def)
qed

lemma dadd_nonpos: "dle a 0 \<Longrightarrow> dle b 0 \<Longrightarrow> dle (dadd a b) 0"
  by (cases a; cases b) (simp_all add: dle_def round_double_nonpos [unfolded dle_def])

lemma foldl_dadd_nonpos:
  "dle acc 0 \<Longrightarrow> \<forall>v \<in> set vs. dle v 0 \<Longrightarrow> dle (foldl dadd acc vs) 0"
  by (induction vs arbitrary: acc) (simp_all add: dadd_nonpos)

lemma dquot_nonpos: "dle v 0 \<Longrightarrow> dle (dquot v n) 0"
proof (cases v)
  case (Finite x)
  assume "dle v 0"
  then have "x / of_nat n \<le> 0" using Finite by (simp add: dle_def divide_nonpos_nonneg)
  then show ?thesis using Finite by (simp add: dquot_def round_double_nonpos)
qed (simp_all add: dquot_def)

lemma losing_rates:
  assumes "trades \<noteq> []" "\<forall>t \<in> set trades. \<forall>v. pnl t = Some v \<longrightarrow> dle v 0"
  shows "\<not> dgt (round_double (of_nat (length (filter (\<lambda>t. dgt (get_pnl t) 0) trades))
                              / of_nat (length trades))) (1 / 2)"
    and "\<not> dgt (dquot (float_sum (map get_pnl trades)) (length trades)) 0"
proof -
  have le: "\<forall>t \<in> set trades. dle (get_pnl t) 0"
    using assms(2) by (auto simp add: get_pnl_def dle_def split: option.splits)
  then have "filter (\<lambda>t. dgt (get_pnl t) 0) trades = []"
    by (auto simp add: filter_empty_conv dle_not_dgt)
  then show "\<not> dgt (round_double (of_nat (length (filter (\<lambda>t. dgt (get_pnl t) 0) trades))
                              / of_nat (length trades))) (1 / 2)"
    by (simp add: round_double_def dgt_def)
  have "dle (float_sum (map get_pnl trades)) 0"
    unfolding float_sum_def using le by (intro foldl_dadd_nonpos) (auto simp add: dle_def)
  then show "\<not> dgt (dquot (float_sum (map get_pnl trades)) (length trades)) 0"
    by (intro dle_not_dgt dquot_nonpos)
qed

lemma fear_findings_result:
  assumes ne: "trades \<noteq> []"
    and losing: "\<forall>t \<in> set trades. \<forall>v. pnl t = Some v \<longrightarrow> dle v 0"
    and t: "t \<in> set sampled" "notes t = Some s" "str_in fear_phrase s"
    and r: "weaknesses r = take 3 (fst (snd (notes_rule sampled
              (diversity_rule (take 5 (ranked_strategies trades))
                (avg_pnl_rule (dquot (float_sum (map get_pnl trades)) (length trades))
                  (win_rate_rule (round_double (of_nat (length (filter (\<lambda>t. dgt (get_pnl t) 0) trades)) / of_nat (length trades)))
                     ([], [], [])))))))"
       "suggestions r = take 3 (snd (snd (notes_rule sampled
              (diversity_rule (take 5 (ranked_strategies trades))
                (avg_pnl_rule (dquot (float_sum (map get_pnl trades)) (length trades))
                  (win_rate_rule (round_double (of_nat (length (filter (\<lambda>t. dgt (get_pnl t) 0) trades)) / of_nat (length trades)))
                     ([], [], [])))))))"
  shows "fear_findings trades r"
proof -
  have len: "length (take 5 (ranked_strategies trades)) = min 5 (card (set (trade_labels trades)))"
    by (simp add: length_ranked min.commute)
  show ?thesis
    using r
    unfolding fear_lists [OF losing_rates [OF ne losing] t] len
    by (auto simp add: fear_findings_def)
qed

text \<open>
  C5, as amended. For a non-empty input in which every \<open>pnl\<close> is at most 0 (Python's
  \<open>pnl <= 0\<close> on the float) and a record
  among those sampled for the notes (the first 50 in \<open>functions/trade-analysis.py\<close>; in
  \<open>app.py\<close> all of them up to 50 records, the 50 drawn at random beyond) has notes
  containing "I felt fear during this trade": the weaknesses contain "Below 50% win rate"
  and "Emotional trading noted in multiple trades", and the suggestions contain "Work on
  emotional discipline during trading" exactly when the input has more than two distinct
  labels.
\<close>

theorem fear_in_sample:
  assumes "trades \<noteq> []" and "\<forall>t \<in> set trades. \<forall>v. pnl t = Some v \<longrightarrow> dle v 0"
  shows "((\<exists>t \<in> set (take 50 trades). \<exists>s. notes t = Some s \<and> str_in fear_phrase s)
            \<longrightarrow> fear_findings trades (fn_analyze_trades trades))
       \<and> ((\<exists>t \<in> set (app_sampled_trades choice trades). \<exists>s. notes t = Some s \<and> str_in fear_phrase s)
            \<longrightarrow> fear_findings trades (app_analyze_trades choice trades))"
proof (intro conjI impI)
  assume "\<exists>t \<in> set (take 50 trades). \<exists>s. notes t = Some s \<and> str_in fear_phrase s"
  then obtain t s where "t \<in> set (take 50 trades)" "notes t = Some s" "str_in fear_phrase s"
    by blast
  then show "fear_findings trades (fn_analyze_trades trades)"
    by (rule fear_findings_result [OF assms]) (simp_all add: fn_result [OF assms(1)] Let_def)
next
  assume "\<exists>t \<in> set (app_sampled_trades choice trades). \<exists>s. notes t = Some s \<and> str_in fear_phrase s"
  then obtain t s where "t \<in> set (app_sampled_trades choice trades)" "notes t = Some s"
    "str_in fear_phrase s"
    by blast
  then show "fear_findings trades (app_analyze_trades choice trades)"
    by (rule fear_findings_result [OF assms]) (simp_all add: app_result [OF assms(1)] Let_def)
qed

theorem fear_in_sample_witness:
  "''Below 50% win rate'' \<in> set (weaknesses (fn_analyze_trades fear_three))
   \<and> ''Emotional trading noted in multiple trades'' \<in> set (weaknesses (fn_analyze_trades fear_three))
   \<and> ''Work on emotional discipline during trading'' \<in> set (suggestions (fn_analyze_trades fear_three))
   \<and> ''Emotional trading noted in multiple trades''
        \<in> set (weaknesses (app_analyze_trades (\<lambda>n k. []) fear_three))"
proof -
  have labels: "trade_labels fear_three = [''scalp'', ''swing'', ''hedge'']"
    by code_simp
  have "fear_three \<noteq> []" "\<forall>t \<in> set fear_three. \<forall>v. pnl t = Some v \<longrightarrow> dle v 0"
    by (simp_all add: fear_three_def dle_def)
  moreover have "\<exists>t \<in> set (take 50 fear_three). \<exists>s. notes t = Some s \<and> str_in fear_phrase s"
    by (simp add: fear_three_def fear_phrase_def)
  moreover have "\<exists>t \<in> set (app_sampled_trades (\<lambda>n k. []) fear_three).
      \<exists>s. notes t = Some s \<and> str_in fear_phrase s"
    by (simp add: app_sample_small fear_three_def fear_phrase_def)
  ultimately have "fear_findings fear_three (fn_analyze_trades fear_three)"
    "fear_findings fear_three (app_analyze_trades (\<lambda>n k. []) fear_three)"
    using fear_in_sample [of fear_three "\<lambda>n k. []"] by blast+
  then show ?thesis
    by (simp add: fear_findings_def labels)
qed

lemma fear_trade_fn:
  "fn_analyze_trades [fear_trade] =
     \<lparr>win_rate = Finite 0, avg_profit_loss = Finite (- 1), strategies = [], strengths = [],
      weaknesses = [''Below 50% win rate'', ''Negative average P&L'',
                    ''Emotional trading noted in multiple trades''],
      suggestions = [''Focus on improving your win rate by reviewing losing trades'',
                     ''Work on improving your average profit per trade'',
                     ''Consider exploring more trading strategies to diversify your approach'']\<rparr>"
  by code_simp

lemma late_fear_fn:
  "weaknesses (fn_analyze_trades late_fear) = [''Below 50% win rate'', ''Negative average P&L'']"
  by code_simp

lemma late_fear_app:
  "weaknesses (app_analyze_trades (\<lambda>n k. [0..<k]) late_fear)
     = [''Below 50% win rate'', ''Negative average P&L'']"
  by code_simp

text \<open>
  C5 as stated fails. On the single losing record with the note of fear the suggestion on
  emotional discipline is the fourth one and is cut by the limit of 3; and with the note
  on the 51st record the sample of the first 50 does not see it.
\<close>

theorem fear_counterexample:
  "pnl fear_trade = Some (Finite (- 1)) \<and> notes fear_trade = Some ''I felt fear during this trade''
   \<and> ''Work on emotional discipline during trading'' \<notin> set (suggestions (fn_analyze_trades [fear_trade]))
   \<and> ''Work on emotional discipline during trading''
        \<notin> set (suggestions (app_analyze_trades (\<lambda>n k. []) [fear_trade]))
   \<and> late_fear ! 50 = fear_trade \<and> length late_fear = 51
   \<and> ''Emotional trading noted in multiple trades'' \<notin> set (weaknesses (fn_analyze_trades late_fear))
   \<and> ''Emotional trading noted in multiple trades''
        \<notin> set (weaknesses (app_analyze_trades (\<lambda>n k. [0..<k]) late_fear))"
proof -
  have "app_analyze_trades (\<lambda>n k. []) [fear_trade] = fn_analyze_trades [fear_trade]"
    by (simp add: app_sample_small app_analyze_trades_def fn_analyze_trades_def)
  moreover have "late_fear ! 50 = fear_trade" "length late_fear = 51"
    by (simp_all add: late_fear_def nth_append)
  ultimately show ?thesis
    by (simp add: fear_trade_fn late_fear_fn late_fear_app) (simp add: fear_trade_def)
qed

section \<open>Properties of generate_coach_response\<close>

lemma silent_extract: "strip (last (split advice_marker [])) = []"
  by (simp add: split_def strip_def)

text \<open>
  C6, as amended. When the backend returns a completion whose part after the last
  "Your helpful advice:", trimmed, is empty or shorter than 10 characters,
  \<open>generate_coach_response\<close> of \<open>functions/trade-analysis.py\<close> returns the response of
  the template path, and \<open>generate_coach_response\<close> of \<open>app.py\<close>, which has no template
  path, returns one fixed sentence whatever the message and the analysis.
\<close>

theorem short_completion_fallback:
  "(g (fn_prompt user_message a) 150 1 = Returns (Some (Str text) # rest)
      \<and> length (strip (last (split advice_marker text))) < 10
    \<longrightarrow> fn_generate_coach_response True (Some g) user_message a
          = Inr (fn_template_response user_message a))
   \<and> (g (app_prompt user_message a) 150 1 = Returns (Some (Str text) # rest)
      \<and> length (strip (last (split advice_marker text))) < 10
    \<longrightarrow> app_generate_coach_response (Some g) user_message a = Inr short_fallback)"
  by (simp add: fn_generate_coach_response_def app_generate_coach_response_def try_except_def
      generated_text_of_def advice_part_of_def)

theorem short_completion_fallback_witness:
  "fn_generate_coach_response True (Some silent_backend) ''what should i improve'' empty_analysis
     = Inr (fn_template_response ''what should i improve'' empty_analysis)
   \<and> app_generate_coach_response (Some silent_backend) ''what should i improve'' empty_analysis
     = Inr short_fallback"
  using short_completion_fallback [of silent_backend "''what should i improve''" empty_analysis "[]" "[]"]
  by (simp add: silent_backend_def silent_extract)

lemma improve_template:
  "fn_template_response ''what should i improve'' empty_analysis
     = ''Based on your trading data, I recommend: Start recording your trades to get personalized analysis.''"
  by code_simp

lemma silent_app:
  "app_generate_coach_response (Some silent_backend) ''what should i improve'' empty_analysis
     = Inr short_fallback"
  by (simp add: app_generate_coach_response_def try_except_def generated_text_of_def
      advice_part_of_def silent_backend_def silent_extract)

text \<open>
  C6 as stated fails on \<open>app.py\<close>: with an empty completion and the message "what should
  i improve" the answer is the fixed sentence, not the template built from the
  suggestions.
\<close>

theorem short_completion_counterexample:
  "silent_backend (app_prompt ''what should i improve'' empty_analysis) 150 1 = Returns [Some (Str [])]
   \<and> strip (last (split advice_marker [])) = []
   \<and> app_generate_coach_response (Some silent_backend) ''what should i improve'' empty_analysis
       \<noteq> Inr (fn_template_response ''what should i improve'' empty_analysis)
   \<and> app_generate_coach_response (Some silent_backend) ''what should i improve'' empty_analysis
       = Inr ''Based on your trading performance, I recommend focusing on consistency and keeping detailed trade notes to identify patterns.''"
  by (simp add: silent_app improve_template silent_extract) (simp add: silent_backend_def short_fallback_def)

lemma app_absorbs:
  "app_generate_coach_response None user_message a = Inr trouble_message"
  "backend_fails g (app_prompt user_message a)
     \<Longrightarrow> app_generate_coach_response (Some g) user_message a = Inr trouble_message"
  by (auto simp add: app_generate_coach_response_def try_except_def backend_fails_def
      split: sum.splits)

lemma fn_absorbs:
  "fn_generate_coach_response has_transformers None user_message a
     = Inr (fn_template_response user_message a)"
  "fn_generate_coach_response False generator user_message a
     = Inr (fn_template_response user_message a)"
  "backend_fails g (fn_prompt user_message a)
     \<Longrightarrow> fn_generate_coach_response has_transformers (Some g) user_message a
         = Inr (fn_template_response user_message a)"
  by (auto simp add: fn_generate_coach_response_def try_except_def backend_fails_def
      split: sum.splits option.splits bool.splits)

text \<open>
  C8. For every user message and every analysis result both implementations of
  \<open>generate_coach_response\<close> return a string and no exception reaches the caller. When
  the backend is missing or fails (it raises, or its output is malformed), \<open>app.py\<close>
  returns its apology and \<open>functions/trade-analysis.py\<close> the template response.
\<close>

theorem coach_response_total:
  "(\<exists>s. fn_generate_coach_response has_transformers generator user_message a = Inr s)
   \<and> (\<exists>s. app_generate_coach_response generator user_message a = Inr s)
   \<and> (generator = None \<or> (\<exists>g. generator = Some g \<and> backend_fails g (app_prompt user_message a))
      \<longrightarrow> app_generate_coach_response generator user_message a = Inr trouble_message)
   \<and> (generator = None \<or> \<not> has_transformers
        \<or> (\<exists>g. generator = Some g \<and> backend_fails g (fn_prompt user_message a))
      \<longrightarrow> fn_generate_coach_response has_transformers generator user_message a
            = Inr (fn_template_response user_message a))"
proof (intro conjI impI)
  show "\<exists>s. fn_generate_coach_response has_transformers generator user_message a = Inr s"
    by (simp add: fn_generate_coach_response_def try_except_def
        split: option.splits sum.splits bool.splits)
  show "\<exists>s. app_generate_coach_response generator user_message a = Inr s"
    by (simp add: app_generate_coach_response_def try_except_def
        split: option.splits sum.splits)
next
  assume "generator = None \<or> (\<exists>g. generator = Some g \<and> backend_fails g (app_prompt user_message a))"
  then show "app_generate_coach_response generator user_message a = Inr trouble_message"
    using app_absorbs by blast
next
  assume "generator = None \<or> \<not> has_transformers
        \<or> (\<exists>g. generator = Some g \<and> backend_fails g (fn_prompt user_message a))"
  then show "fn_generate_coach_response has_transformers generator user_message a
            = Inr (fn_template_response user_message a)"
    using fn_absorbs [of _ user_message a] by (cases has_transformers) auto
qed

theorem coach_response_total_witness:
  "app_generate_coach_response (Some broken_backend) ''how am i doing'' empty_analysis
     = Inr ''I'm having trouble analyzing your trades right now. Please try again later.''
   \<and> fn_generate_coach_response True (Some broken_backend) ''how am i doing'' empty_analysis
     = Inr (fn_template_response ''how am i doing'' empty_analysis)"
proof -
  have "backend_fails broken_backend p" for p
    by (simp add: backend_fails_def broken_backend_def generated_text_of_def)
  then show ?thesis
    using coach_response_total [of True "Some broken_backend" "''how am i doing''" empty_analysis]
    by (simp add: trouble_message_def)
qed

section \<open>Properties of the chat endpoint\<close>

text \<open>
  C7, as amended. When no message of the request has the role "user", \<open>do_POST\<close> of
  \<open>functions/trade-analysis.py\<close> answers with status 400, with or without a \<open>user_id\<close>;
  \<open>chat\<close> of \<open>app.py\<close> answers with status 200 and the text "I didn't receive a message
  to respond to." and no analysis (or with the 500 of the credentials check), never with
  400.
\<close>

theorem chat_without_user_message:
  "((\<forall>m \<in> set (get_messages request_data). get_role m \<noteq> Some ''user'')
      \<longrightarrow> status (fn_do_POST env query has_transformers generator (Inr request_data)) = 400)
   \<and> ((\<forall>m \<in> set (messages request). role m \<noteq> ''user'')
      \<longrightarrow> app_chat env query choice generator request
            = (case get_supabase_client env of
                 Inl response \<Rightarrow> response
               | Inr supabase \<Rightarrow>
                   \<lparr>status = 200, body = ChatJson ''I didn't receive a message to respond to.'' None\<rparr>)
          \<and> status (app_chat env query choice generator request) \<noteq> 400)"
proof (intro conjI impI)
  assume "\<forall>m \<in> set (get_messages request_data). get_role m \<noteq> Some ''user''"
  then have "find (\<lambda>msg. get_role msg = Some ''user'') (rev (get_messages request_data)) = None"
    by (simp add: find_None_iff)
  then show "status (fn_do_POST env query has_transformers generator (Inr request_data)) = 400"
    by (simp add: fn_do_POST_def falsy_def Let_def)
next
  assume "\<forall>m \<in> set (messages request). role m \<noteq> ''user''"
  then have none: "find (\<lambda>msg. role msg = ''user'') (rev (messages request)) = None"
    by (simp add: find_None_iff)
  then show "app_chat env query choice generator request
            = (case get_supabase_client env of
                 Inl response \<Rightarrow> response
               | Inr supabase \<Rightarrow>
                   \<lparr>status = 200, body = ChatJson ''I didn't receive a message to respond to.'' None\<rparr>)"
    by (simp add: app_chat_def falsy_def split: sum.splits)
  show "status (app_chat env query choice generator request) \<noteq> 400"
    using none by (simp add: app_chat_def get_supabase_client_def falsy_def split: sum.splits option.splits if_splits)
qed

text \<open>
  C7 as stated fails on \<open>app.py\<close>: a request with a \<open>user_id\<close> and no user message is
  answered with status 200.
\<close>

theorem chat_without_user_message_counterexample:
  "app_chat good_env (\<lambda>uid. QueryData []) (\<lambda>n k. []) None \<lparr>messages = [], user_id = ''u1''\<rparr>
     = \<lparr>status = 200, body = ChatJson ''I didn't receive a message to respond to.'' None\<rparr>
   \<and> status (app_chat good_env (\<lambda>uid. QueryData []) (\<lambda>n k. []) None
        \<lparr>messages = [Message ''assistant'' ''Welcome''], user_id = ''u1''\<rparr>) \<noteq> 400"
  by (simp add: app_chat_def get_supabase_client_def good_env_def falsy_def)

theorem chat_without_user_message_witness:
  "status (fn_do_POST good_env (\<lambda>uid. QueryData []) True None
      (Inr (RequestData (Some ''u1'') [JsonMessage (Some ''assistant'') (Some ''Welcome'')]))) = 400
   \<and> status (app_chat good_env (\<lambda>uid. QueryData []) (\<lambda>n k. []) None
        \<lparr>messages = [Message ''assistant'' ''Welcome''], user_id = ''u1''\<rparr>) = 200"
  using chat_without_user_message [of "RequestData (Some ''u1'') [JsonMessage (Some ''assistant'') (Some ''Welcome'')]"
      good_env "\<lambda>uid. QueryData []" True None
      "\<lparr>messages = [Message ''assistant'' ''Welcome''], user_id = ''u1''\<rparr>" "\<lambda>n k. []"]
  by (simp add: get_supabase_client_def good_env_def falsy_def)

end
